theory Spec2Isabelle
  imports Main
begin

section \<open>Python built-ins used by the generator\<close>

text \<open>
  \<^verbatim>\<open>str(n)\<close> on a Python integer is its decimal numeral, with a leading minus sign for a
  negative number. \<^verbatim>\<open>sep.join(xs)\<close> and \<^verbatim>\<open>s.split(c)\<close> are the usual string operations.
\<close>

definition digit_char :: "nat \<Rightarrow> char" where
  "digit_char d = ''0123456789'' ! d"

function str_nat :: "nat \<Rightarrow> string" where
  "str_nat n = (if n < 10 then [digit_char n] else str_nat (n div 10) @ [digit_char (n mod 10)])"
  by pat_completeness auto
termination
  by (relation "measure id") auto

declare str_nat.simps [simp del]

definition str_int :: "int \<Rightarrow> string" where
  "str_int i = (if i < 0 then CHR ''-'' # str_nat (nat (- i)) else str_nat (nat i))"

fun join :: "string \<Rightarrow> string list \<Rightarrow> string" where
  "join sep [] = []"
| "join sep [x] = x"
| "join sep (x # y # ys) = x @ sep @ join sep (y # ys)"

fun split_on :: "char \<Rightarrow> string \<Rightarrow> string list" where
  "split_on c [] = [[]]"
| "split_on c (x # xs) =
     (if x = c then [] # split_on c xs
      else (case split_on c xs of
              [] \<Rightarrow> [[x]]
            | y # ys \<Rightarrow> (x # y) # ys))"

section \<open>pathlib, POSIX flavour\<close>

text \<open>
  A \<^verbatim>\<open>Path\<close> is a root (\<^verbatim>\<open>/\<close>, \<^verbatim>\<open>//\<close> or none) and the list of its components.
  Parsing drops empty components and \<^verbatim>\<open>.\<close> components, so repeated and trailing slashes
  disappear; exactly two leading slashes are kept as the root \<^verbatim>\<open>//\<close>. The components
  \<^verbatim>\<open>..\<close> are kept as they are. \<^verbatim>\<open>str\<close> of the empty relative path is \<^verbatim>\<open>.\<close>.
\<close>

record path =
  root :: string
  parts :: "string list"

definition Path :: "string \<Rightarrow> path" where
  "Path s =
     \<lparr> root = (if take 2 s = ''//'' \<and> take 3 s \<noteq> ''///'' then ''//''
               else if take 1 s = ''/'' then ''/'' else ''''),
       parts = filter (\<lambda>x. x \<noteq> '''' \<and> x \<noteq> ''.'') (split_on CHR ''/'' s) \<rparr>"

definition str_path :: "path \<Rightarrow> string" where
  "str_path p =
     (if root p = '''' \<and> parts p = [] then ''.'' else root p @ join ''/'' (parts p))"

definition path_parent :: "path \<Rightarrow> path" where
  "path_parent p = p \<lparr> parts := butlast (parts p) \<rparr>"

definition joinpath :: "path \<Rightarrow> string \<Rightarrow> path" where
  "joinpath p s =
     (let q = Path s in
      if root q \<noteq> '''' then q else \<lparr> root = root p, parts = parts p @ parts q \<rparr>)"

section \<open>The world the generator runs in\<close>

text \<open>
  The filesystem is a map from path names to nodes. A node is a regular file the process
  may write, a directory, a device that discards what is written to it (the null
  device), or a regular file the process may not write; the flag of the latter says
  whether the process owns it. Three sets describe directories: those in which the
  process may neither create nor remove an entry (no write permission), those in which
  it may create but not remove entries (append-only), and those whose entries it may
  not look up (no search permission). A node is addressed by the normalised name of its
  path (\<open>str_path\<close>; for a plain string \<open>os_key\<close>), so that spellings that differ in
  repeated slashes or \<^verbatim>\<open>.\<close> components name the same node; symbolic links and inner
  \<^verbatim>\<open>..\<close> components are not resolved. A file the process creates is its own; it is
  created with the write permission of the owner unless the \<open>umask\<close> of the process
  clears that bit (\<^verbatim>\<open>0o200\<close>).

  The external tool is a function from the command line and the filesystem it finds to
  what \<^verbatim>\<open>subprocess.run\<close> does: raise \<^verbatim>\<open>FileNotFoundError\<close>, raise another exception, or
  return the exit status and error stream of a process that left the filesystem in some
  state. Every call of \<^verbatim>\<open>subprocess.run\<close> is logged in \<open>spawned\<close>. The random number
  generator is a sequence and the number of draws made.
\<close>

datatype node = File string | Dir | Device | ReadOnlyFile string bool

type_synonym filesystem = "string \<Rightarrow> node option"

datatype run_outcome =
    RaisesFileNotFoundError
  | RaisesOther string
  | CompletedProcess int string filesystem

record world =
  nodes :: filesystem
  readonly :: "string set"
  append_only :: "string set"
  unsearchable :: "string set"
  umask :: nat
  spawned :: "string list list"
  subprocess_run :: "string list \<Rightarrow> filesystem \<Rightarrow> run_outcome"
  rng :: "nat \<Rightarrow> nat"
  draws :: nat

definition os_key :: "string \<Rightarrow> string" where
  "os_key s = str_path (Path s)"

definition creates_writable :: "world \<Rightarrow> bool" where
  "creates_writable w = (umask w div 128 mod 2 = 0)"

definition new_file :: "world \<Rightarrow> string \<Rightarrow> node" where
  "new_file w c = (if creates_writable w then File c else ReadOnlyFile c True)"

text \<open>
  Every system call on a path walks through the directories above it and fails with
  \<^verbatim>\<open>EACCES\<close> (\<^verbatim>\<open>PermissionError\<close>) when one of them may not be searched.
\<close>

definition path_ancestors :: "path \<Rightarrow> path list" where
  "path_ancestors p = map (\<lambda>n. p \<lparr> parts := take n (parts p) \<rparr>) [0..<length (parts p)]"

definition searchable :: "world \<Rightarrow> path \<Rightarrow> bool" where
  "searchable w p = list_all (\<lambda>a. str_path a \<notin> unsearchable w) (path_ancestors p)"

definition os_stat :: "world \<Rightarrow> path \<Rightarrow> string + node option" where
  "os_stat w p = (if searchable w p then Inr (nodes w (str_path p)) else Inl ''PermissionError'')"

text \<open>
  \<^verbatim>\<open>Path.exists()\<close> and \<^verbatim>\<open>Path.is_dir()\<close> answer false for a missing node and pass
  \<^verbatim>\<open>PermissionError\<close> on to the caller. \<^verbatim>\<open>os.path.exists\<close> answers false on every error.
\<close>

definition path_exists :: "world \<Rightarrow> path \<Rightarrow> string + bool" where
  "path_exists w p = (case os_stat w p of Inl e \<Rightarrow> Inl e | Inr n \<Rightarrow> Inr (n \<noteq> None))"

definition path_is_dir :: "world \<Rightarrow> path \<Rightarrow> string + bool" where
  "path_is_dir w p = (case os_stat w p of Inl e \<Rightarrow> Inl e | Inr n \<Rightarrow> Inr (n = Some Dir))"

definition os_path_exists :: "world \<Rightarrow> string \<Rightarrow> bool" where
  "os_path_exists w s = (case os_stat w (Path s) of Inl e \<Rightarrow> False | Inr n \<Rightarrow> n \<noteq> None)"

text \<open>
  \<^verbatim>\<open>Path.touch()\<close> first tries \<^verbatim>\<open>os.utime\<close>, which succeeds on an existing node unless the
  process neither owns it nor may write it, and changes nothing the model records; on a
  missing node it creates an empty file, which needs the containing directory to exist
  and to allow new entries. \<^verbatim>\<open>Path.unlink()\<close> removes a node that is not a directory
  and fails on a missing node, on a directory, and in a directory that does not allow
  removing entries. A failed call raises a subclass of \<^verbatim>\<open>OSError\<close> and leaves the
  filesystem as it was.
\<close>

definition path_touch :: "path \<Rightarrow> world \<Rightarrow> string + world" where
  "path_touch p w =
     (let k = str_path p; d = str_path (path_parent p) in
      if \<not> searchable w p then Inl ''PermissionError''
      else case nodes w k of
        Some (ReadOnlyFile c owned) \<Rightarrow> if owned then Inr w else Inl ''PermissionError''
      | Some (File c) \<Rightarrow> Inr w
      | Some Dir \<Rightarrow> Inr w
      | Some Device \<Rightarrow> Inr w
      | None \<Rightarrow>
          if nodes w d \<noteq> Some Dir then Inl ''FileNotFoundError''
          else if d \<in> readonly w then Inl ''PermissionError''
          else Inr (w \<lparr> nodes := (nodes w)(k \<mapsto> new_file w '''') \<rparr>))"

definition path_unlink :: "path \<Rightarrow> world \<Rightarrow> string + world" where
  "path_unlink p w =
     (let k = str_path p; d = str_path (path_parent p) in
      if \<not> searchable w p then Inl ''PermissionError''
      else case nodes w k of
        None \<Rightarrow> Inl ''FileNotFoundError''
      | Some Dir \<Rightarrow> Inl ''IsADirectoryError''
      | Some n \<Rightarrow>
          if nodes w d \<noteq> Some Dir then Inl ''NotADirectoryError''
          else if d \<in> readonly w \<or> d \<in> append_only w then Inl ''PermissionError''
          else Inr (w \<lparr> nodes := (nodes w)(k := None) \<rparr>))"

text \<open>
  \<^verbatim>\<open>random.randint(1000, 9999)\<close> takes the next element of the sequence into the range.
\<close>

definition randint :: "world \<Rightarrow> int" where
  "randint w = 1000 + int (rng w (draws w) mod 9000)"

text \<open>
  \<^verbatim>\<open>with open(output_path, "w") as f: f.write(f"test_data_{random.randint(1000, 9999)}")\<close>.
  \<^verbatim>\<open>open\<close> receives the string as the caller gave it. The empty string names nothing.
  The directories above the name must be searchable. A name that ends in a slash or
  whose last component is \<^verbatim>\<open>.\<close> or \<^verbatim>\<open>..\<close> stands for a directory and cannot be opened
  for writing: with a trailing slash or \<^verbatim>\<open>..\<close> the directory in front of the last
  component must be there, and then the call is refused with \<^verbatim>\<open>IsADirectoryError\<close>
  whatever the name refers to; with \<^verbatim>\<open>.\<close> the name in front of it must be a directory.
  Otherwise the file is created or truncated, then the number is drawn and written; a
  device takes the data and keeps nothing, an existing file keeps its permissions.
  Opening fails on a directory, on a file the process may not write, and, for a file that
  does not exist yet, in a missing directory or one that allows no new entries; then
  nothing is drawn.
\<close>

definition write_placeholder :: "string \<Rightarrow> world \<Rightarrow> string + world" where
  "write_placeholder s w =
     (let p = Path s; k = str_path p; d = str_path (path_parent p);
          t = last (split_on CHR ''/'' s);
          content = ''test_data_'' @ str_int (randint w) in
      if s = '''' then Inl ''FileNotFoundError''
      else if \<not> searchable w p then Inl ''PermissionError''
      else if t \<in> set ['''', ''.'', ''..'']
      then (case (if t = ''.'' then nodes w k else nodes w d) of
              Some Dir \<Rightarrow> Inl ''IsADirectoryError''
            | Some n \<Rightarrow> Inl ''NotADirectoryError''
            | None \<Rightarrow> Inl ''FileNotFoundError'')
      else case nodes w k of
        Some Dir \<Rightarrow> Inl ''IsADirectoryError''
      | Some (ReadOnlyFile c owned) \<Rightarrow> Inl ''PermissionError''
      | Some Device \<Rightarrow> Inr (w \<lparr> draws := Suc (draws w) \<rparr>)
      | Some (File c) \<Rightarrow>
          Inr (w \<lparr> nodes := (nodes w)(k \<mapsto> File content), draws := Suc (draws w) \<rparr>)
      | None \<Rightarrow>
          if nodes w d \<noteq> Some Dir then Inl ''FileNotFoundError''
          else if d \<in> readonly w then Inl ''PermissionError''
          else Inr (w \<lparr> nodes := (nodes w)(k \<mapsto> new_file w content),
                        draws := Suc (draws w) \<rparr>))"

section \<open>The generator (core.py)\<close>

datatype error =
    QuantisValidationError string
  | QuantisNotFoundError string
  | QuantisExecutionError string
  | PyException string

record config =
  usb_device_index :: int
  easyquantis_path :: string
  test_mode :: bool

definition default_config :: config where
  "default_config = \<lparr> usb_device_index = 0, easyquantis_path = ''easyquantis'', test_mode = False \<rparr>"

text \<open>
  The values given as \<^verbatim>\<open>min_val\<close> and \<^verbatim>\<open>max_val\<close> are used through \<^verbatim>\<open>str\<close> and
  \<^verbatim>\<open>>=\<close> only, which Python takes from the class of the value. The model passes these
  two operations along with the type of the values; for Python integers they are
  \<open>int_ops\<close>.
\<close>

record 'n num_ops =
  py_str :: "'n \<Rightarrow> string"
  py_ge :: "'n \<Rightarrow> 'n \<Rightarrow> bool"

definition int_ops :: "int num_ops" where
  "int_ops = \<lparr> py_str = str_int, py_ge = (\<lambda>a b. a \<ge> b) \<rparr>"

text \<open>The test-mode loop of \<^verbatim>\<open>_execute_command\<close> over \<^verbatim>\<open>enumerate(args)\<close>.\<close>

fun write_dummies :: "string list \<Rightarrow> world \<Rightarrow> (error + unit) \<times> world" where
  "write_dummies [] w = (Inr (), w)"
| "write_dummies [arg] w = (Inr (), w)"
| "write_dummies (arg # output_path # rest) w =
     (if arg \<in> set [''-b'', ''-i'', ''-f''] \<and> output_path \<notin> set [''/dev/null'', ''nul'']
      then (case write_placeholder output_path w of
              Inl e \<Rightarrow> (Inl (PyException e), w)
            | Inr w' \<Rightarrow> write_dummies (output_path # rest) w')
      else write_dummies (output_path # rest) w)"

definition execute_command :: "config \<Rightarrow> string list \<Rightarrow> world \<Rightarrow> (error + unit) \<times> world" where
  "execute_command cfg args w =
     (if test_mode cfg then write_dummies args w
      else
        let cmd = [easyquantis_path cfg, ''-u'', str_int (usb_device_index cfg)] @ args;
            w' = w \<lparr> spawned := spawned w @ [cmd] \<rparr> in
        case subprocess_run w cmd (nodes w) of
          RaisesFileNotFoundError \<Rightarrow>
            (Inl (QuantisNotFoundError
                   (''easyquantis executable not found: '' @ easyquantis_path cfg)), w')
        | RaisesOther e \<Rightarrow> (Inl (PyException e), w')
        | CompletedProcess returncode stderr fs' \<Rightarrow>
            if returncode \<noteq> 0
            then (Inl (QuantisExecutionError
                        (''Command failed: '' @ join '' '' cmd @ [CHR 0x0A] @ ''Error: '' @ stderr)),
                  w' \<lparr> nodes := fs' \<rparr>)
            else (Inr (), w' \<lparr> nodes := fs' \<rparr>))"

definition validate_inputs :: "int \<Rightarrow> string \<Rightarrow> world \<Rightarrow> (error + unit) \<times> world" where
  "validate_inputs count output_path w =
     (if count \<le> 0 then (Inl (QuantisValidationError ''Count must be positive''), w)
      else
        let path = Path output_path in
        if str_path path \<in> set [''/dev/null'', ''nul''] then (Inr (), w)
        else
         (case path_exists w path of
            Inl e \<Rightarrow> (Inl (PyException e), w)
          | Inr exists \<Rightarrow>
         (case (if exists then path_is_dir w path else Inr False) of
            Inl e \<Rightarrow> (Inl (PyException e), w)
          | Inr is_directory \<Rightarrow>
          if is_directory
          then (Inl (QuantisValidationError
                      (''Output path is a directory: '' @ output_path
                       @ ''. Please specify a filename.'')), w)
          else
            let parent = path_parent path in
           (case path_exists w parent of
              Inl e \<Rightarrow> (Inl (PyException e), w)
            | Inr parent_exists \<Rightarrow>
            if \<not> parent_exists
            then (Inl (QuantisValidationError (''Directory does not exist: '' @ str_path parent)), w)
            else
             (case path_is_dir w parent of
                Inl e \<Rightarrow> (Inl (PyException e), w)
              | Inr parent_is_dir \<Rightarrow>
              if \<not> parent_is_dir
              then (Inl (QuantisValidationError
                          (''Parent path is not a directory: '' @ str_path parent)), w)
              else
                let test_file = joinpath parent ''.write_test'' in
               (case path_touch test_file w of
                  Inl e \<Rightarrow>
                    (Inl (QuantisValidationError
                           (''No write permission for directory: '' @ str_path parent)), w)
                | Inr w1 \<Rightarrow>
                    (case path_unlink test_file w1 of
                       Inl e \<Rightarrow>
                         (Inl (QuantisValidationError
                                (''No write permission for directory: '' @ str_path parent)), w1)
                     | Inr w2 \<Rightarrow> (Inr (), w2))))))))"

definition generate_binary :: "config \<Rightarrow> int \<Rightarrow> string \<Rightarrow> world \<Rightarrow> (error + unit) \<times> world" where
  "generate_binary cfg count output_path w =
     (case validate_inputs count output_path w of
        (Inl e, w') \<Rightarrow> (Inl e, w')
      | (Inr u, w') \<Rightarrow>
          let args = [''-b'', output_path, ''-n'', str_int count] in
          execute_command cfg args w')"

definition generate_integers ::
  "'n num_ops \<Rightarrow> config \<Rightarrow> int \<Rightarrow> string \<Rightarrow> 'n option \<Rightarrow> 'n option \<Rightarrow> string option \<Rightarrow>
   world \<Rightarrow> (error + unit) \<times> world" where
  "generate_integers ops cfg count output_path min_val max_val separator w =
     (case validate_inputs count output_path w of
        (Inl e, w') \<Rightarrow> (Inl e, w')
      | (Inr u, w') \<Rightarrow>
          if min_val \<noteq> None \<and> max_val \<noteq> None \<and> py_ge ops (the min_val) (the max_val)
          then (Inl (QuantisValidationError ''Minimum value must be less than maximum value''), w')
          else
            let args = [''-i'', output_path, ''-n'', str_int count];
                args = (case min_val of None \<Rightarrow> args | Some m \<Rightarrow> args @ [''--min'', py_str ops m]);
                args = (case max_val of None \<Rightarrow> args | Some m \<Rightarrow> args @ [''--max'', py_str ops m]);
                args = (case separator of None \<Rightarrow> args | Some s \<Rightarrow> args @ [''-s'', s])
            in execute_command cfg args w')"

definition generate_floats ::
  "'n num_ops \<Rightarrow> config \<Rightarrow> int \<Rightarrow> string \<Rightarrow> 'n option \<Rightarrow> 'n option \<Rightarrow> string option \<Rightarrow>
   world \<Rightarrow> (error + unit) \<times> world" where
  "generate_floats ops cfg count output_path min_val max_val separator w =
     (case validate_inputs count output_path w of
        (Inl e, w') \<Rightarrow> (Inl e, w')
      | (Inr u, w') \<Rightarrow>
          if min_val \<noteq> None \<and> max_val \<noteq> None \<and> py_ge ops (the min_val) (the max_val)
          then (Inl (QuantisValidationError ''Minimum value must be less than maximum value''), w')
          else
            let args = [''-f'', output_path, ''-n'', str_int count];
                args = (case min_val of None \<Rightarrow> args | Some m \<Rightarrow> args @ [''--min'', py_str ops m]);
                args = (case max_val of None \<Rightarrow> args | Some m \<Rightarrow> args @ [''--max'', py_str ops m]);
                args = (case separator of None \<Rightarrow> args | Some s \<Rightarrow> args @ [''-s'', s])
            in execute_command cfg args w')"

definition is_ready :: "config \<Rightarrow> world \<Rightarrow> (error + bool) \<times> world" where
  "is_ready cfg w =
     (if test_mode cfg then (Inr True, w)
      else
        let null_path = (if os_path_exists w ''/dev/null'' then ''/dev/null'' else ''nul'') in
        case generate_binary cfg 1 null_path w of
          (Inr u, w') \<Rightarrow> (Inr True, w')
        | (Inl (QuantisNotFoundError m), w') \<Rightarrow> (Inr False, w')
        | (Inl (QuantisExecutionError m), w') \<Rightarrow> (Inr False, w')
        | (Inl e, w') \<Rightarrow> (Inl e, w'))"

section \<open>The invocation the interface description asks for\<close>

text \<open>
  The argument vector as the description of the process interface words it: the
  executable, the device selector pair, the kind selector with the output path, the count
  selector, and then the pairs for the minimum, the maximum and the separator, each
  present only when its value (already rendered as text) was supplied.
\<close>

definition invocation_vector ::
  "config \<Rightarrow> string \<Rightarrow> string \<Rightarrow> int \<Rightarrow> string option \<Rightarrow> string option \<Rightarrow> string option \<Rightarrow>
   string list" where
  "invocation_vector cfg kind_flag output_path count min_text max_text separator =
     [easyquantis_path cfg, ''-u'', str_int (usb_device_index cfg),
      kind_flag, output_path, ''-n'', str_int count]
     @ (case min_text of None \<Rightarrow> [] | Some m \<Rightarrow> [''--min'', m])
     @ (case max_text of None \<Rightarrow> [] | Some m \<Rightarrow> [''--max'', m])
     @ (case separator of None \<Rightarrow> [] | Some s \<Rightarrow> [''-s'', s])"

text \<open>Abbreviations for the conditions and names the statements below speak about.\<close>

definition bounds_rejected :: "'n num_ops \<Rightarrow> 'n option \<Rightarrow> 'n option \<Rightarrow> bool" where
  "bounds_rejected ops min_val max_val =
     (case (min_val, max_val) of (Some a, Some b) \<Rightarrow> py_ge ops a b | _ \<Rightarrow> False)"

definition is_sentinel :: "string \<Rightarrow> bool" where
  "is_sentinel output_path = (os_key output_path = ''/dev/null'' \<or> os_key output_path = ''nul'')"

definition parent_key :: "string \<Rightarrow> string" where
  "parent_key output_path = str_path (path_parent (Path output_path))"

definition marker_key :: "string \<Rightarrow> string" where
  "marker_key output_path = str_path (joinpath (path_parent (Path output_path)) ''.write_test'')"

text \<open>
  A node at the marker path that the probe cannot get past whatever the directory
  allows: a directory, which \<^verbatim>\<open>unlink\<close> refuses, or a file of another owner that the
  process may not write, which \<^verbatim>\<open>touch\<close> refuses.
\<close>

fun marker_blocks :: "node option \<Rightarrow> bool" where
  "marker_blocks (Some Dir) = True"
| "marker_blocks (Some (ReadOnlyFile c owned)) = (\<not> owned)"
| "marker_blocks (Some (File c)) = False"
| "marker_blocks (Some Device) = False"
| "marker_blocks None = False"





section \<open>Example worlds\<close>

text \<open>
  A small filesystem with a writable directory \<^verbatim>\<open>/x\<close> that holds a plain file
  \<^verbatim>\<open>/x/plain\<close> and a file \<^verbatim>\<open>/x/frozen\<close> of the process that is write-protected, a
  read-only directory \<^verbatim>\<open>/ro\<close> that already holds a file \<^verbatim>\<open>.write_test\<close>,
  an append-only directory \<^verbatim>\<open>/log\<close>, a directory \<^verbatim>\<open>/locked\<close> that the process may
  neither write nor search, the null device and a writable working directory; the
  umask is \<^verbatim>\<open>0o022\<close>; and an external tool that exits with status 0 and leaves the
  filesystem alone. \<open>world_with\<close> exchanges the behaviour of the tool. In
  \<open>strict_world\<close> the umask is \<^verbatim>\<open>0o222\<close>, so that the files the process creates are
  write-protected.
\<close>

definition example_nodes :: filesystem where
  "example_nodes =
     [''/'' \<mapsto> Dir, ''.'' \<mapsto> Dir, ''/x'' \<mapsto> Dir, ''/x/plain'' \<mapsto> File ''text'',
      ''/x/frozen'' \<mapsto> ReadOnlyFile ''old'' True,
      ''/dev'' \<mapsto> Dir, ''/dev/null'' \<mapsto> Device,
      ''/ro'' \<mapsto> Dir, ''/ro/.write_test'' \<mapsto> File ''mine'',
      ''/log'' \<mapsto> Dir, ''/locked'' \<mapsto> Dir]"

definition world_with :: "(string list \<Rightarrow> filesystem \<Rightarrow> run_outcome) \<Rightarrow> world" where
  "world_with tool =
     \<lparr> nodes = example_nodes, readonly = {''/ro'', ''/locked''}, append_only = {''/log''},
       unsearchable = {''/locked''}, umask = 18, spawned = [],
       subprocess_run = tool, rng = (\<lambda>n. 7 * n + 3), draws = 0 \<rparr>"

definition example_world :: world where
  "example_world = world_with (\<lambda>cmd fs. CompletedProcess 0 [] fs)"


definition test_config :: config where
  "test_config = default_config \<lparr> test_mode := True \<rparr>"

text \<open>
  Three other behaviours of the external tool: the executable is not found; the process
  exits with status 2 after writing to its error stream; starting the process raises
  \<^verbatim>\<open>PermissionError\<close>.
\<close>

definition tool_missing :: "string list \<Rightarrow> filesystem \<Rightarrow> run_outcome" where
  "tool_missing cmd fs = RaisesFileNotFoundError"

definition tool_failing :: "string list \<Rightarrow> filesystem \<Rightarrow> run_outcome" where
  "tool_failing cmd fs = CompletedProcess 2 ''Device not found'' fs"

definition tool_denied :: "string list \<Rightarrow> filesystem \<Rightarrow> run_outcome" where
  "tool_denied cmd fs = RaisesOther ''PermissionError''"

section \<open>What validation and execution leave alone\<close>

lemma path_touch_frame:
  "path_touch p w = Inr w' \<Longrightarrow>
     spawned w' = spawned w \<and> draws w' = draws w \<and> readonly w' = readonly w
     \<and> subprocess_run w' = subprocess_run w \<and> rng w' = rng w"
  by (auto simp: path_touch_def Let_def split: if_splits option.splits node.splits)

lemma path_unlink_frame:
  "path_unlink p w = Inr w' \<Longrightarrow>
     spawned w' = spawned w \<and> draws w' = draws w \<and> readonly w' = readonly w
     \<and> subprocess_run w' = subprocess_run w \<and> rng w' = rng w"
  by (auto simp: path_unlink_def Let_def split: if_splits option.splits node.splits)

lemma validate_inputs_frame:
  "validate_inputs count output_path w = (r, w') \<Longrightarrow>
     spawned w' = spawned w \<and> draws w' = draws w \<and> readonly w' = readonly w
     \<and> subprocess_run w' = subprocess_run w \<and> rng w' = rng w"
  by (auto simp: validate_inputs_def Let_def split: if_splits sum.splits
           dest!: path_touch_frame path_unlink_frame)

lemma write_dummies_spawned:
  "spawned (snd (write_dummies args w)) = spawned w"
proof (induction args w rule: write_dummies.induct)
  case (3 arg output_path rest w)
  then show ?case
    by (auto simp: write_placeholder_def Let_def split: sum.splits option.splits node.splits if_splits)
qed simp_all

lemma execute_command_spawned:
  "spawned (snd (execute_command cfg args w)) =
     (if test_mode cfg then spawned w
      else spawned w @ [[easyquantis_path cfg, ''-u'', str_int (usb_device_index cfg)] @ args])"
  by (simp add: execute_command_def Let_def write_dummies_spawned split: run_outcome.splits)

lemma generate_binary_spawned:
  "spawned (snd (generate_binary cfg count output_path w)) =
     (if \<not> test_mode cfg \<and> fst (validate_inputs count output_path w) = Inr ()
      then spawned w @ [invocation_vector cfg ''-b'' output_path count None None None]
      else spawned w)"
proof (cases "validate_inputs count output_path w")
  case (Pair r w')
  then have "spawned w' = spawned w" by (simp add: validate_inputs_frame)
  with Pair show ?thesis
    by (cases r) (simp_all add: generate_binary_def execute_command_spawned invocation_vector_def)
qed

lemma generate_integers_spawned:
  "spawned (snd (generate_integers ops cfg count output_path min_val max_val separator w)) =
     (if \<not> test_mode cfg \<and> fst (validate_inputs count output_path w) = Inr ()
         \<and> \<not> bounds_rejected ops min_val max_val
      then spawned w @ [invocation_vector cfg ''-i'' output_path count
             (map_option (py_str ops) min_val) (map_option (py_str ops) max_val) separator]
      else spawned w)"
proof (cases "validate_inputs count output_path w")
  case (Pair r w')
  then have "spawned w' = spawned w" by (simp add: validate_inputs_frame)
  with Pair show ?thesis
    by (cases r)
       (auto simp: generate_integers_def execute_command_spawned bounds_rejected_def
                   invocation_vector_def Let_def
             split: option.splits)
qed

lemma generate_floats_spawned:
  "spawned (snd (generate_floats ops cfg count output_path min_val max_val separator w)) =
     (if \<not> test_mode cfg \<and> fst (validate_inputs count output_path w) = Inr ()
         \<and> \<not> bounds_rejected ops min_val max_val
      then spawned w @ [invocation_vector cfg ''-f'' output_path count
             (map_option (py_str ops) min_val) (map_option (py_str ops) max_val) separator]
      else spawned w)"
proof (cases "validate_inputs count output_path w")
  case (Pair r w')
  then have "spawned w' = spawned w" by (simp add: validate_inputs_frame)
  with Pair show ?thesis
    by (cases r)
       (auto simp: generate_floats_def execute_command_spawned bounds_rejected_def
                   invocation_vector_def Let_def
             split: option.splits)
qed

lemma example_world_facts:
  "spawned example_world = []"
  "\<not> test_mode default_config"
  "test_mode test_config"
  "fst (validate_inputs 100 ''/x/ints.txt'' example_world) = Inr ()"
  "fst (validate_inputs 1024 ''/x/out.bin'' example_world) = Inr ()"
  by code_simp+

lemma example_vectors:
  "invocation_vector default_config ''-i'' ''/x/ints.txt'' 100
       (map_option (py_str int_ops) (Some 1)) (map_option (py_str int_ops) (Some 6)) (Some '','')
     = [''easyquantis'', ''-u'', ''0'', ''-i'', ''/x/ints.txt'', ''-n'', ''100'',
        ''--min'', ''1'', ''--max'', ''6'', ''-s'', '','']"
  "invocation_vector default_config ''-b'' ''/x/out.bin'' 1024 None None None
     = [''easyquantis'', ''-u'', ''0'', ''-b'', ''/x/out.bin'', ''-n'', ''1024'']"
  "\<not> bounds_rejected int_ops (Some 1) (Some 6)"
  by code_simp+

section \<open>Argument construction\<close>

text \<open>
  C1. Argument construction is deterministic and order-preserving. A generation call
  passes a command line to the external tool exactly when the generator is not in test
  mode, validation of the count and the path succeeds and the bounds are not rejected;
  it then passes exactly one, which is the executable path, \<^verbatim>\<open>-u\<close>, the device index as
  text, the kind flag (\<^verbatim>\<open>-b\<close>, \<^verbatim>\<open>-i\<close> or \<^verbatim>\<open>-f\<close>), the output path, \<^verbatim>\<open>-n\<close>, the count
  as text, and then the \<^verbatim>\<open>--min\<close>, \<^verbatim>\<open>--max\<close> and \<^verbatim>\<open>-s\<close> pairs of the values that were
  supplied, in that order. With the default configuration,
  \<^verbatim>\<open>generate_integers(100, "/x/ints.txt", min=1, max=6, separator=",")\<close> and
  \<^verbatim>\<open>generate_binary(1024, "/x/out.bin")\<close> pass the two vectors of the specification.
\<close>

theorem invocation_vector_exact:
  "spawned (snd (generate_binary cfg count output_path w)) =
     (if \<not> test_mode cfg \<and> fst (validate_inputs count output_path w) = Inr ()
      then spawned w @ [invocation_vector cfg ''-b'' output_path count None None None]
      else spawned w)
   \<and> spawned (snd (generate_integers ops cfg count output_path min_val max_val separator w)) =
     (if \<not> test_mode cfg \<and> fst (validate_inputs count output_path w) = Inr ()
         \<and> \<not> bounds_rejected ops min_val max_val
      then spawned w @ [invocation_vector cfg ''-i'' output_path count
             (map_option (py_str ops) min_val) (map_option (py_str ops) max_val) separator]
      else spawned w)
   \<and> spawned (snd (generate_floats ops cfg count output_path min_val max_val separator w)) =
     (if \<not> test_mode cfg \<and> fst (validate_inputs count output_path w) = Inr ()
         \<and> \<not> bounds_rejected ops min_val max_val
      then spawned w @ [invocation_vector cfg ''-f'' output_path count
             (map_option (py_str ops) min_val) (map_option (py_str ops) max_val) separator]
      else spawned w)
   \<and> (fst (validate_inputs 100 ''/x/ints.txt'' w) = Inr () \<longrightarrow>
        spawned (snd (generate_integers int_ops default_config 100 ''/x/ints.txt''
                        (Some 1) (Some 6) (Some '','') w)) =
          spawned w @ [[''easyquantis'', ''-u'', ''0'', ''-i'', ''/x/ints.txt'', ''-n'', ''100'',
                        ''--min'', ''1'', ''--max'', ''6'', ''-s'', '','']])
   \<and> (fst (validate_inputs 1024 ''/x/out.bin'' w) = Inr () \<longrightarrow>
        spawned (snd (generate_binary default_config 1024 ''/x/out.bin'' w)) =
          spawned w @ [[''easyquantis'', ''-u'', ''0'', ''-b'', ''/x/out.bin'', ''-n'', ''1024'']])"
  by (simp only: generate_binary_spawned generate_integers_spawned generate_floats_spawned
                 example_vectors example_world_facts)
     simp

theorem invocation_vector_exact_witness:
  "fst (validate_inputs 100 ''/x/ints.txt'' example_world) = Inr ()
   \<and> spawned (snd (generate_integers int_ops default_config 100 ''/x/ints.txt''
                     (Some 1) (Some 6) (Some '','') example_world)) =
       [[''easyquantis'', ''-u'', ''0'', ''-i'', ''/x/ints.txt'', ''-n'', ''100'',
         ''--min'', ''1'', ''--max'', ''6'', ''-s'', '','']]
   \<and> fst (validate_inputs 1024 ''/x/out.bin'' example_world) = Inr ()
   \<and> spawned (snd (generate_binary default_config 1024 ''/x/out.bin'' example_world)) =
       [[''easyquantis'', ''-u'', ''0'', ''-b'', ''/x/out.bin'', ''-n'', ''1024'']]"
proof -
  note examples = invocation_vector_exact [where w = example_world,
                    THEN conjunct2, THEN conjunct2, THEN conjunct2]
  have v1: "fst (validate_inputs 100 ''/x/ints.txt'' example_world) = Inr ()"
    and v2: "fst (validate_inputs 1024 ''/x/out.bin'' example_world) = Inr ()"
    and e: "spawned example_world = []"
    by (rule example_world_facts)+
  from examples [THEN conjunct1] v1 e
  have i: "spawned (snd (generate_integers int_ops default_config 100 ''/x/ints.txt''
                     (Some 1) (Some 6) (Some '','') example_world)) =
       [[''easyquantis'', ''-u'', ''0'', ''-i'', ''/x/ints.txt'', ''-n'', ''100'',
         ''--min'', ''1'', ''--max'', ''6'', ''-s'', '','']]"
    by simp
  from examples [THEN conjunct2] v2 e
  have b: "spawned (snd (generate_binary default_config 1024 ''/x/out.bin'' example_world)) =
       [[''easyquantis'', ''-u'', ''0'', ''-b'', ''/x/out.bin'', ''-n'', ''1024'']]"
    by simp
  from v1 i v2 b show ?thesis by blast
qed

section \<open>Rejection of a non-positive count\<close>

text \<open>
  C2. For every count that is zero or negative, each of the three generation operations
  fails with the validation error "Count must be positive" and returns the world exactly
  as it found it: no process was spawned, no file was created, touched or removed (neither
  a placeholder nor the marker of the write probe) and no random number was drawn. This
  holds in test mode and in normal mode alike.
\<close>

theorem nonpositive_count_rejected_untouched:
  assumes "count \<le> 0"
  shows "generate_binary cfg count output_path w =
           (Inl (QuantisValidationError ''Count must be positive''), w)
       \<and> generate_integers ops cfg count output_path min_val max_val separator w =
           (Inl (QuantisValidationError ''Count must be positive''), w)
       \<and> generate_floats ops cfg count output_path min_val max_val separator w =
           (Inl (QuantisValidationError ''Count must be positive''), w)"
  using assms
  by (simp add: generate_binary_def generate_integers_def generate_floats_def validate_inputs_def)

theorem nonpositive_count_rejected_untouched_witness:
  "(- 3 :: int) \<le> 0
   \<and> generate_binary test_config (- 3) ''/x/out.bin'' example_world =
       (Inl (QuantisValidationError ''Count must be positive''), example_world)
   \<and> generate_integers int_ops default_config (- 3) ''/x/out.bin'' (Some 1) (Some 6) None
       example_world =
       (Inl (QuantisValidationError ''Count must be positive''), example_world)
   \<and> generate_floats int_ops default_config (- 3) ''/x/out.bin'' None None None example_world =
       (Inl (QuantisValidationError ''Count must be positive''), example_world)"
proof -
  have neg: "(- 3 :: int) \<le> 0" by simp
  note rejected = nonpositive_count_rejected_untouched [OF neg]
  from neg rejected [THEN conjunct1] rejected [THEN conjunct2, THEN conjunct1]
       rejected [THEN conjunct2, THEN conjunct2]
  show ?thesis by blast
qed

section \<open>Classification of the outcome of the external process\<close>

lemma failing_message:
  "''Command failed: '' @ join '' '' ([easyquantis_path default_config, ''-u'',
       str_int (usb_device_index default_config)] @ [''-b'', ''/x/out.bin'', ''-n'', ''8''])
     @ [CHR 0x0A] @ ''Error: '' @ ''Device not found''
   = ''Command failed: easyquantis -u 0 -b /x/out.bin -n 8'' @ [CHR 0x0A] @ ''Error: Device not found''"
  by code_simp

text \<open>
  C3, as the specification states it, has a tool that cannot be started end in the
  not-found error and knows exactly two kinds of failure. The source catches
  \<^verbatim>\<open>FileNotFoundError\<close> only: when starting the process raises \<^verbatim>\<open>PermissionError\<close> (the
  file is found but may not be executed), the call leaves with that exception, which is
  neither of the two kinds.
\<close>

theorem permission_error_not_classified:
  "\<not> test_mode default_config
   \<and> fst (execute_command default_config [''-b'', ''/x/out.bin'', ''-n'', ''8'']
            (world_with tool_denied)) = Inl (PyException ''PermissionError'')
   \<and> fst (generate_binary default_config 8 ''/x/out.bin'' (world_with tool_denied)) =
       Inl (PyException ''PermissionError'')"
  by code_simp

text \<open>
  C3, amended. In normal mode the execution primitive passes the command line to the
  external tool once and classifies what comes back. When \<^verbatim>\<open>subprocess.run\<close> raises
  \<^verbatim>\<open>FileNotFoundError\<close> (the executable cannot be located) the call fails with the
  not-found error, whose message ends with the configured executable path. When the
  process returns a non-zero status the call fails with the execution error, whose
  message holds the command line joined by blanks and the captured error stream. The
  call succeeds exactly when the process returns status 0. These are the only two kinds
  of generator error the primitive produces, each exactly in its case; any other
  exception of \<^verbatim>\<open>subprocess.run\<close> is not classified and leaves the call as it is.
\<close>

theorem execution_outcome_classified:
  fixes cfg :: config and args :: "string list" and w :: world
  defines "cmd \<equiv> [easyquantis_path cfg, ''-u'', str_int (usb_device_index cfg)] @ args"
  defines "outcome \<equiv> subprocess_run w cmd (nodes w)"
  defines "r \<equiv> fst (execute_command cfg args w)"
  assumes normal: "\<not> test_mode cfg"
  shows "(outcome = RaisesFileNotFoundError \<longrightarrow>
            r = Inl (QuantisNotFoundError
                      (''easyquantis executable not found: '' @ easyquantis_path cfg)))
       \<and> (\<forall>returncode stderr fs. outcome = CompletedProcess returncode stderr fs \<and> returncode \<noteq> 0 \<longrightarrow>
            r = Inl (QuantisExecutionError
                      (''Command failed: '' @ join '' '' cmd @ [CHR 0x0A] @ ''Error: '' @ stderr)))
       \<and> (r = Inr () \<longleftrightarrow> (\<exists>stderr fs. outcome = CompletedProcess 0 stderr fs))
       \<and> ((\<exists>m. r = Inl (QuantisNotFoundError m)) \<longleftrightarrow> outcome = RaisesFileNotFoundError)
       \<and> ((\<exists>m. r = Inl (QuantisExecutionError m)) \<longleftrightarrow>
            (\<exists>returncode stderr fs. outcome = CompletedProcess returncode stderr fs \<and> returncode \<noteq> 0))
       \<and> (\<forall>m. r \<noteq> Inl (QuantisValidationError m))
       \<and> (\<forall>e. outcome = RaisesOther e \<longrightarrow> r = Inl (PyException e))
       \<and> spawned (snd (execute_command cfg args w)) = spawned w @ [cmd]"
  using normal unfolding r_def outcome_def cmd_def
  by (cases "subprocess_run w ([easyquantis_path cfg, ''-u'', str_int (usb_device_index cfg)] @ args) (nodes w)")
     (auto simp: execute_command_def Let_def)

theorem execution_outcome_classified_witness:
  "\<not> test_mode default_config
   \<and> fst (execute_command default_config [''-b'', ''/x/out.bin'', ''-n'', ''8'']
            (world_with tool_failing)) =
       Inl (QuantisExecutionError
             (''Command failed: easyquantis -u 0 -b /x/out.bin -n 8'' @ [CHR 0x0A]
              @ ''Error: Device not found''))
   \<and> fst (execute_command default_config [''-b'', ''/x/out.bin'', ''-n'', ''8'']
            (world_with tool_missing)) =
       Inl (QuantisNotFoundError ''easyquantis executable not found: easyquantis'')
   \<and> fst (execute_command default_config [''-b'', ''/x/out.bin'', ''-n'', ''8'']
            example_world) = Inr ()"
proof -
  have n: "\<not> test_mode default_config" by (rule example_world_facts)
  note c = execution_outcome_classified [OF n, where args = "[''-b'', ''/x/out.bin'', ''-n'', ''8'']"]
  have f: "subprocess_run (world_with tool_failing) cmd (nodes (world_with tool_failing)) =
             CompletedProcess 2 ''Device not found'' example_nodes" for cmd
    by (simp add: world_with_def tool_failing_def)
  have m: "subprocess_run (world_with tool_missing) cmd (nodes (world_with tool_missing)) =
             RaisesFileNotFoundError" for cmd
    by (simp add: world_with_def tool_missing_def)
  have k: "subprocess_run example_world cmd (nodes example_world) =
             CompletedProcess 0 [] example_nodes" for cmd
    by (simp add: world_with_def example_world_def)
  have p: "easyquantis_path default_config = ''easyquantis''"
    by (simp add: default_config_def)
  from c [where w = "world_with tool_failing", THEN conjunct2, THEN conjunct1] f
  have 1: "fst (execute_command default_config [''-b'', ''/x/out.bin'', ''-n'', ''8'']
            (world_with tool_failing)) =
       Inl (QuantisExecutionError
             (''Command failed: easyquantis -u 0 -b /x/out.bin -n 8'' @ [CHR 0x0A]
              @ ''Error: Device not found''))"
    using failing_message by simp
  from c [where w = "world_with tool_missing", THEN conjunct1] m p
  have 2: "fst (execute_command default_config [''-b'', ''/x/out.bin'', ''-n'', ''8'']
            (world_with tool_missing)) =
       Inl (QuantisNotFoundError ''easyquantis executable not found: easyquantis'')"
    by simp
  from c [where w = example_world, THEN conjunct2, THEN conjunct2, THEN conjunct1] k
  have 3: "fst (execute_command default_config [''-b'', ''/x/out.bin'', ''-n'', ''8'']
            example_world) = Inr ()"
    by simp
  from n 1 2 3 show ?thesis by blast
qed

section \<open>The readiness check\<close>

lemma generate_binary_sentinel:
  "0 < count \<Longrightarrow> is_sentinel output_path \<Longrightarrow>
   generate_binary cfg count output_path w =
     execute_command cfg [''-b'', output_path, ''-n'', str_int count] w"
  by (auto simp: generate_binary_def validate_inputs_def is_sentinel_def os_key_def Let_def)

lemma searchable_keys:
  "searchable w p \<longleftrightarrow> (\<forall>k \<in> set (map str_path (path_ancestors p)). k \<notin> unsearchable w)"
  by (simp add: searchable_def list_all_iff)

lemma dev_null_ancestors:
  "map str_path (path_ancestors (Path ''/dev/null'')) = [''/'', ''/dev'']"
  by code_simp

lemma sentinel_examples:
  "is_sentinel ''/dev/null''" "is_sentinel ''nul''" "str_int 1 = ''1''"
  "str_path (Path ''/dev/null'') = ''/dev/null''"
  by code_simp+

text \<open>
  C6. In test mode \<^verbatim>\<open>is_ready\<close> returns true and leaves the world as it is: nothing is
  spawned and no file is looked at or written. Outside test mode it makes exactly one call
  of the external tool, asking for 1 byte written to the null device (\<^verbatim>\<open>/dev/null\<close> when
  that exists, \<^verbatim>\<open>nul\<close> otherwise), with the filesystem untouched before that call. It
  returns true when the process exits with status 0 and false when the invocation fails
  with the not-found error or the execution error; any other failure of the invocation
  is passed on to the caller.
\<close>

theorem is_ready_reports:
  fixes cfg :: config and w :: world
  defines "null_path \<equiv> (if os_path_exists w ''/dev/null'' then ''/dev/null'' else ''nul'')"
  defines "cmd \<equiv> [easyquantis_path cfg, ''-u'', str_int (usb_device_index cfg),
                   ''-b'', null_path, ''-n'', ''1'']"
  shows "(test_mode cfg \<longrightarrow> is_ready cfg w = (Inr True, w))
       \<and> (\<not> test_mode cfg \<longrightarrow>
            spawned (snd (is_ready cfg w)) = spawned w @ [cmd]
            \<and> fst (is_ready cfg w) =
                (case subprocess_run w cmd (nodes w) of
                   RaisesFileNotFoundError \<Rightarrow> Inr False
                 | RaisesOther e \<Rightarrow> Inl (PyException e)
                 | CompletedProcess returncode stderr fs \<Rightarrow> Inr (returncode = 0))
            \<and> fst (is_ready cfg w) =
                (case fst (generate_binary cfg 1 null_path w) of
                   Inr u \<Rightarrow> Inr True
                 | Inl (QuantisNotFoundError m) \<Rightarrow> Inr False
                 | Inl (QuantisExecutionError m) \<Rightarrow> Inr False
                 | Inl e \<Rightarrow> Inl e))"
proof (cases "test_mode cfg")
  case True
  then show ?thesis by (simp add: is_ready_def)
next
  case False
  have "null_path = ''/dev/null'' \<or> null_path = ''nul''"
    by (simp add: null_path_def)
  then have sent: "is_sentinel null_path"
    using sentinel_examples by auto
  have gb: "generate_binary cfg 1 null_path w =
              execute_command cfg [''-b'', null_path, ''-n'', ''1''] w"
    using generate_binary_sentinel [OF _ sent, of 1 cfg w] by (simp add: sentinel_examples)
  have ir: "is_ready cfg w =
      (case generate_binary cfg 1 null_path w of
          (Inr u, w') \<Rightarrow> (Inr True, w')
        | (Inl (QuantisNotFoundError m), w') \<Rightarrow> (Inr False, w')
        | (Inl (QuantisExecutionError m), w') \<Rightarrow> (Inr False, w')
        | (Inl e, w') \<Rightarrow> (Inl e, w'))"
    using False by (simp add: is_ready_def null_path_def Let_def)
  show ?thesis
    using False
    by (cases "subprocess_run w cmd (nodes w)")
       (simp_all add: ir gb execute_command_def Let_def cmd_def)
qed

theorem is_ready_reports_witness:
  "test_mode test_config \<and> \<not> test_mode default_config
   \<and> is_ready test_config (world_with tool_missing) = (Inr True, world_with tool_missing)
   \<and> fst (is_ready default_config (world_with tool_missing)) = Inr False
   \<and> fst (is_ready default_config (world_with tool_failing)) = Inr False
   \<and> fst (is_ready default_config (world_with tool_denied)) = Inl (PyException ''PermissionError'')
   \<and> fst (is_ready default_config example_world) = Inr True
   \<and> spawned (snd (is_ready default_config example_world)) =
       [[''easyquantis'', ''-u'', ''0'', ''-b'', ''/dev/null'', ''-n'', ''1'']]"
proof -
  have t: "test_mode test_config" and n: "\<not> test_mode default_config"
    by (rule example_world_facts)+
  have ex: "os_path_exists (world_with tool) ''/dev/null''" for tool
    by (simp add: world_with_def os_path_exists_def os_stat_def searchable_keys
                  dev_null_ancestors example_nodes_def sentinel_examples)
  have ex': "os_path_exists example_world ''/dev/null''"
    by (simp add: example_world_def ex)
  have cfg: "easyquantis_path default_config = ''easyquantis''"
            "str_int (usb_device_index default_config) = ''0''"
    by code_simp+
  have tools: "subprocess_run (world_with tool) = tool" "spawned (world_with tool) = []" for tool
    by (simp_all add: world_with_def)
  from is_ready_reports [where cfg = test_config and w = "world_with tool_missing", THEN conjunct1] t
  have 1: "is_ready test_config (world_with tool_missing) = (Inr True, world_with tool_missing)"
    by simp
  note normal = is_ready_reports [where cfg = default_config, THEN conjunct2, rule_format, OF n]
  from normal [where w = "world_with tool_missing", THEN conjunct2, THEN conjunct1]
  have 2: "fst (is_ready default_config (world_with tool_missing)) = Inr False"
    by (simp add: tools tool_missing_def)
  from normal [where w = "world_with tool_failing", THEN conjunct2, THEN conjunct1]
  have 3: "fst (is_ready default_config (world_with tool_failing)) = Inr False"
    by (simp add: tools tool_failing_def)
  from normal [where w = "world_with tool_denied", THEN conjunct2, THEN conjunct1]
  have 4: "fst (is_ready default_config (world_with tool_denied)) = Inl (PyException ''PermissionError'')"
    by (simp add: tools tool_denied_def)
  from normal [where w = example_world, THEN conjunct2, THEN conjunct1]
  have 5: "fst (is_ready default_config example_world) = Inr True"
    by (simp add: tools example_world_def)
  from normal [where w = example_world, THEN conjunct1]
  have 6: "spawned (snd (is_ready default_config example_world)) =
       [[''easyquantis'', ''-u'', ''0'', ''-b'', ''/dev/null'', ''-n'', ''1'']]"
    using ex' by (simp add: cfg tools example_world_def)
  from t n 1 2 3 4 5 6 show ?thesis by blast
qed

section \<open>The ordering of the bounds\<close>

lemma generate_numbers_bounds_rejected:
  assumes "bounds_rejected ops min_val max_val"
  shows "generate_integers ops cfg count output_path min_val max_val separator w =
           (case validate_inputs count output_path w of
              (Inl e, w') \<Rightarrow> (Inl e, w')
            | (Inr u, w') \<Rightarrow>
                (Inl (QuantisValidationError ''Minimum value must be less than maximum value''), w'))"
    and "generate_floats ops cfg count output_path min_val max_val separator w =
           (case validate_inputs count output_path w of
              (Inl e, w') \<Rightarrow> (Inl e, w')
            | (Inr u, w') \<Rightarrow>
                (Inl (QuantisValidationError ''Minimum value must be less than maximum value''), w'))"
  using assms
  by (auto simp: generate_integers_def generate_floats_def bounds_rejected_def
           split: option.splits prod.splits sum.splits)

text \<open>
  C4, as the specification states it, asks for the error that names the ordering of the
  bounds whatever the count is. The count is checked first: with count 0, minimum 5 and
  maximum 1 both operations fail with "Count must be positive".
\<close>

theorem ordering_error_masked_by_count:
  "py_ge int_ops 5 1
   \<and> fst (generate_integers int_ops default_config 0 ''/x/ints.txt'' (Some 5) (Some 1) None
            example_world) = Inl (QuantisValidationError ''Count must be positive'')
   \<and> fst (generate_floats int_ops default_config 0 ''/x/ints.txt'' (Some 5) (Some 1) None
            example_world) = Inl (QuantisValidationError ''Count must be positive'')
   \<and> ''Count must be positive'' \<noteq> ''Minimum value must be less than maximum value''"
  by (simp add: generate_integers_def generate_floats_def validate_inputs_def int_ops_def)

text \<open>
  C4, amended. For every call of \<^verbatim>\<open>generate_integers\<close> or \<^verbatim>\<open>generate_floats\<close> in which both
  bounds are supplied and the minimum is not below the maximum, the call fails before
  execution: no process is spawned and no placeholder is written. When validation of the
  count and the path passes, the call fails with the validation error "Minimum value
  must be less than maximum value", in the world validation left. Otherwise the call
  ends exactly as that validation ends, in its result and in what it leaves behind: the
  first failing check of the count or the path decides, and for a count that is not
  positive the error is "Count must be positive".
\<close>

theorem bounds_checked_after_count_and_path:
  assumes "min_val = Some a" and "max_val = Some b" and "py_ge ops a b"
  shows "(fst (validate_inputs count output_path w) = Inr () \<longrightarrow>
            generate_integers ops cfg count output_path min_val max_val separator w =
              (Inl (QuantisValidationError ''Minimum value must be less than maximum value''),
               snd (validate_inputs count output_path w)))
       \<and> (fst (validate_inputs count output_path w) \<noteq> Inr () \<longrightarrow>
            generate_integers ops cfg count output_path min_val max_val separator w =
              validate_inputs count output_path w)
       \<and> (count \<le> 0 \<longrightarrow>
            generate_integers ops cfg count output_path min_val max_val separator w =
              (Inl (QuantisValidationError ''Count must be positive''), w))
       \<and> (fst (validate_inputs count output_path w) = Inr () \<longrightarrow>
            generate_floats ops cfg count output_path min_val max_val separator w =
              (Inl (QuantisValidationError ''Minimum value must be less than maximum value''),
               snd (validate_inputs count output_path w)))
       \<and> (fst (validate_inputs count output_path w) \<noteq> Inr () \<longrightarrow>
            generate_floats ops cfg count output_path min_val max_val separator w =
              validate_inputs count output_path w)
       \<and> (count \<le> 0 \<longrightarrow>
            generate_floats ops cfg count output_path min_val max_val separator w =
              (Inl (QuantisValidationError ''Count must be positive''), w))
       \<and> spawned (snd (generate_integers ops cfg count output_path min_val max_val separator w)) =
            spawned w
       \<and> draws (snd (generate_integers ops cfg count output_path min_val max_val separator w)) =
            draws w
       \<and> spawned (snd (generate_floats ops cfg count output_path min_val max_val separator w)) =
            spawned w
       \<and> draws (snd (generate_floats ops cfg count output_path min_val max_val separator w)) =
            draws w"
proof -
  from assms have rej: "bounds_rejected ops min_val max_val"
    by (simp add: bounds_rejected_def)
  obtain r w' where v: "validate_inputs count output_path w = (r, w')"
    by (cases "validate_inputs count output_path w")
  note frame = validate_inputs_frame [OF v]
  have low: "count \<le> 0 \<Longrightarrow> r = Inl (QuantisValidationError ''Count must be positive'') \<and> w' = w"
    using v by (simp add: validate_inputs_def)
  show ?thesis
  proof (cases r)
    case (Inl e)
    with v frame low show ?thesis
      by (auto simp: generate_numbers_bounds_rejected [OF rej])
  next
    case (Inr u)
    with v frame low show ?thesis
      by (auto simp: generate_numbers_bounds_rejected [OF rej])
  qed
qed

theorem bounds_checked_after_count_and_path_witness:
  "py_ge int_ops 10 5
   \<and> fst (validate_inputs 10 ''/x/test.txt'' example_world) = Inr ()
   \<and> fst (generate_integers int_ops default_config 10 ''/x/test.txt'' (Some 10) (Some 5) None
            example_world) =
       Inl (QuantisValidationError ''Minimum value must be less than maximum value'')
   \<and> fst (generate_floats int_ops default_config 10 ''/x/test.txt'' (Some 10) (Some 5) None
            example_world) =
       Inl (QuantisValidationError ''Minimum value must be less than maximum value'')
   \<and> fst (validate_inputs 10 ''/nowhere/test.txt'' example_world) \<noteq> Inr ()
   \<and> fst (generate_integers int_ops default_config 10 ''/nowhere/test.txt'' (Some 10) (Some 5) None
            example_world) = Inl (QuantisValidationError ''Directory does not exist: /nowhere'')"
proof -
  have ge: "py_ge int_ops 10 5" by (simp add: int_ops_def)
  have v: "fst (validate_inputs 10 ''/x/test.txt'' example_world) = Inr ()"
    and l: "fst (validate_inputs 10 ''/nowhere/test.txt'' example_world) =
              Inl (QuantisValidationError ''Directory does not exist: /nowhere'')"
    by code_simp+
  then have l': "fst (validate_inputs 10 ''/nowhere/test.txt'' example_world) \<noteq> Inr ()"
    by simp
  note c = bounds_checked_after_count_and_path [OF refl refl ge, where count = 10 and w = example_world]
  from c [where output_path = "''/x/test.txt''", THEN conjunct1] v
  have 1: "fst (generate_integers int_ops default_config 10 ''/x/test.txt'' (Some 10) (Some 5) None
            example_world) =
       Inl (QuantisValidationError ''Minimum value must be less than maximum value'')"
    by simp
  from c [where output_path = "''/x/test.txt''",
          THEN conjunct2, THEN conjunct2, THEN conjunct2, THEN conjunct1] v
  have 2: "fst (generate_floats int_ops default_config 10 ''/x/test.txt'' (Some 10) (Some 5) None
            example_world) =
       Inl (QuantisValidationError ''Minimum value must be less than maximum value'')"
    by simp
  from c [where output_path = "''/nowhere/test.txt''", THEN conjunct2, THEN conjunct1] l'
  have 3: "fst (generate_integers int_ops default_config 10 ''/nowhere/test.txt'' (Some 10) (Some 5) None
            example_world) = Inl (QuantisValidationError ''Directory does not exist: /nowhere'')"
    by (simp add: l)
  from ge v 1 2 l' 3 show ?thesis by blast
qed

section \<open>Floats and integers share one contract\<close>

lemma generate_floats_test_mode:
  assumes "test_mode cfg"
  shows "generate_floats ops cfg count output_path min_val max_val separator w =
         generate_integers ops cfg count output_path min_val max_val separator w"
proof -
  obtain r w' where v: "validate_inputs count output_path w = (r, w')"
    by (cases "validate_inputs count output_path w")
  show ?thesis
    using assms v
    by (cases r)
       (simp_all add: generate_floats_def generate_integers_def execute_command_def Let_def
                 split: option.splits)
qed

lemma write_dummies_error_kind:
  "fst (write_dummies args w) \<noteq> Inl (QuantisValidationError m)"
proof (induction args w rule: write_dummies.induct)
  case (3 arg output_path rest w)
  then show ?case by (auto split: sum.splits)
qed simp_all

lemma execute_command_error_kind:
  "fst (execute_command cfg args w) \<noteq> Inl (QuantisValidationError m)"
  by (simp add: execute_command_def Let_def write_dummies_error_kind split: run_outcome.splits)

lemma generate_numbers_run:
  assumes "validate_inputs count output_path w = (Inr u, w')"
    and "\<not> bounds_rejected ops min_val max_val"
  shows "\<exists>args. generate_integers ops cfg count output_path min_val max_val separator w =
                  execute_command cfg args w'"
    and "\<exists>args. generate_floats ops cfg count output_path min_val max_val separator w =
                  execute_command cfg args w'"
  using assms
  by (auto simp: generate_integers_def generate_floats_def bounds_rejected_def Let_def
           split: option.splits)


text \<open>
  C8. \<^verbatim>\<open>generate_floats\<close> has the contract of \<^verbatim>\<open>generate_integers\<close> on every identical
  input. Whenever the call ends in validation (the count, the path or the bounds are
  rejected) and whenever the generator is in test mode, the two operations return the
  same result and the same world. In normal mode, after validation has passed, each
  passes one command line to the external tool, and the one of \<^verbatim>\<open>generate_floats\<close> is
  the one of \<^verbatim>\<open>generate_integers\<close> with the kind flag \<^verbatim>\<open>-i\<close> at position 3 replaced by
  \<^verbatim>\<open>-f\<close>. The two operations raise the same validation errors.
\<close>

theorem floats_same_contract_as_integers:
  fixes ops :: "'n num_ops"
  defines "vi \<equiv> \<lambda>cfg output_path count min_val max_val separator.
             invocation_vector cfg ''-i'' output_path count
               (map_option (py_str ops) min_val) (map_option (py_str ops) max_val) separator"
  shows "(test_mode cfg \<or> fst (validate_inputs count output_path w) \<noteq> Inr ()
            \<or> bounds_rejected ops min_val max_val \<longrightarrow>
          generate_floats ops cfg count output_path min_val max_val separator w =
          generate_integers ops cfg count output_path min_val max_val separator w)
       \<and> (\<not> test_mode cfg \<and> fst (validate_inputs count output_path w) = Inr ()
            \<and> \<not> bounds_rejected ops min_val max_val \<longrightarrow>
          vi cfg output_path count min_val max_val separator ! 3 = ''-i''
          \<and> spawned (snd (generate_integers ops cfg count output_path min_val max_val separator w)) =
              spawned w @ [vi cfg output_path count min_val max_val separator]
          \<and> spawned (snd (generate_floats ops cfg count output_path min_val max_val separator w)) =
              spawned w @ [(vi cfg output_path count min_val max_val separator) [3 := ''-f'']])
       \<and> (\<forall>m. fst (generate_floats ops cfg count output_path min_val max_val separator w) =
                 Inl (QuantisValidationError m)
              \<longleftrightarrow> fst (generate_integers ops cfg count output_path min_val max_val separator w) =
                 Inl (QuantisValidationError m))"
proof -
  let ?gf = "generate_floats ops cfg count output_path min_val max_val separator w"
  let ?gi = "generate_integers ops cfg count output_path min_val max_val separator w"
  obtain r w' where v: "validate_inputs count output_path w = (r, w')"
    by (cases "validate_inputs count output_path w")
  have same_early: "?gf = ?gi"
    if early: "test_mode cfg \<or> r \<noteq> Inr () \<or> bounds_rejected ops min_val max_val"
  proof -
    consider "test_mode cfg" | "bounds_rejected ops min_val max_val" | "r \<noteq> Inr ()"
      using early by blast
    then show ?thesis
    proof cases
      case 1
      then show ?thesis by (rule generate_floats_test_mode)
    next
      case 2
      then show ?thesis by (simp only: generate_numbers_bounds_rejected)
    next
      case 3
      then obtain e where "r = Inl e" by (cases r) auto
      with v show ?thesis by (simp add: generate_floats_def generate_integers_def)
    qed
  qed
  have flag: "vi cfg output_path count min_val max_val separator ! 3 = ''-i''"
    and swap: "(vi cfg output_path count min_val max_val separator) [3 := ''-f''] =
        invocation_vector cfg ''-f'' output_path count
          (map_option (py_str ops) min_val) (map_option (py_str ops) max_val) separator"
    by (simp_all add: vi_def invocation_vector_def)
  have verr: "fst ?gf = Inl (QuantisValidationError m)
              \<longleftrightarrow> fst ?gi = Inl (QuantisValidationError m)" for m
  proof (cases "test_mode cfg \<or> r \<noteq> Inr () \<or> bounds_rejected ops min_val max_val")
    case True
    then have "?gf = ?gi" by (rule same_early)
    then show ?thesis by (simp only:)
  next
    case False
    then have ok: "validate_inputs count output_path w = (Inr (), w')"
      and nb: "\<not> bounds_rejected ops min_val max_val"
      using v by simp_all
    from generate_numbers_run [OF ok nb]
    obtain ai af where "?gi = execute_command cfg ai w'" and "?gf = execute_command cfg af w'"
      by blast
    then show ?thesis
      by (simp only: execute_command_error_kind)
  qed
  have part1: "test_mode cfg \<or> fst (validate_inputs count output_path w) \<noteq> Inr ()
            \<or> bounds_rejected ops min_val max_val \<longrightarrow> ?gf = ?gi"
    using same_early v by simp
  have part2: "\<not> test_mode cfg \<and> fst (validate_inputs count output_path w) = Inr ()
            \<and> \<not> bounds_rejected ops min_val max_val \<longrightarrow>
          vi cfg output_path count min_val max_val separator ! 3 = ''-i''
          \<and> spawned (snd ?gi) = spawned w @ [vi cfg output_path count min_val max_val separator]
          \<and> spawned (snd ?gf) =
              spawned w @ [(vi cfg output_path count min_val max_val separator) [3 := ''-f'']]"
    using flag by (simp add: generate_integers_spawned generate_floats_spawned swap) (simp add: vi_def)
  from part1 part2 verr show ?thesis by blast
qed


theorem floats_same_contract_as_integers_witness:
  "test_mode test_config \<and> \<not> test_mode default_config
   \<and> fst (validate_inputs 50 ''/x/floats.txt'' example_world) = Inr ()
   \<and> \<not> bounds_rejected int_ops (Some 0) (Some 1)
   \<and> generate_floats int_ops test_config 50 ''/x/floats.txt'' (Some 0) (Some 1) (Some '' '')
         example_world =
       generate_integers int_ops test_config 50 ''/x/floats.txt'' (Some 0) (Some 1) (Some '' '')
         example_world
   \<and> spawned (snd (generate_integers int_ops default_config 50 ''/x/floats.txt''
                     (Some 0) (Some 1) (Some '' '') example_world)) =
       [[''easyquantis'', ''-u'', ''0'', ''-i'', ''/x/floats.txt'', ''-n'', ''50'',
         ''--min'', ''0'', ''--max'', ''1'', ''-s'', '' '']]
   \<and> spawned (snd (generate_floats int_ops default_config 50 ''/x/floats.txt''
                     (Some 0) (Some 1) (Some '' '') example_world)) =
       [[''easyquantis'', ''-u'', ''0'', ''-f'', ''/x/floats.txt'', ''-n'', ''50'',
         ''--min'', ''0'', ''--max'', ''1'', ''-s'', '' '']]"
proof -
  have t: "test_mode test_config" and n: "\<not> test_mode default_config"
    and e: "spawned example_world = []"
    by (rule example_world_facts)+
  have v: "fst (validate_inputs 50 ''/x/floats.txt'' example_world) = Inr ()"
    and b: "\<not> bounds_rejected int_ops (Some 0) (Some 1)"
    and vec: "invocation_vector default_config ''-i'' ''/x/floats.txt'' 50
               (Some (py_str int_ops 0)) (Some (py_str int_ops 1)) (Some '' '') =
             [''easyquantis'', ''-u'', ''0'', ''-i'', ''/x/floats.txt'', ''-n'', ''50'',
              ''--min'', ''0'', ''--max'', ''1'', ''-s'', '' '']"
    by code_simp+
  note c = floats_same_contract_as_integers [where ops = int_ops and count = 50
             and output_path = "''/x/floats.txt''" and min_val = "Some 0" and max_val = "Some 1"
             and separator = "Some '' ''" and w = example_world]
  from c [where cfg = test_config, THEN conjunct1] t
  have 1: "generate_floats int_ops test_config 50 ''/x/floats.txt'' (Some 0) (Some 1) (Some '' '')
         example_world =
       generate_integers int_ops test_config 50 ''/x/floats.txt'' (Some 0) (Some 1) (Some '' '')
         example_world"
    by blast
  from c [where cfg = default_config, THEN conjunct2, THEN conjunct1] n v b
  have 2: "spawned (snd (generate_integers int_ops default_config 50 ''/x/floats.txt''
                     (Some 0) (Some 1) (Some '' '') example_world)) =
       [[''easyquantis'', ''-u'', ''0'', ''-i'', ''/x/floats.txt'', ''-n'', ''50'',
         ''--min'', ''0'', ''--max'', ''1'', ''-s'', '' '']]"
    and 3: "spawned (snd (generate_floats int_ops default_config 50 ''/x/floats.txt''
                     (Some 0) (Some 1) (Some '' '') example_world)) =
       [[''easyquantis'', ''-u'', ''0'', ''-f'', ''/x/floats.txt'', ''-n'', ''50'',
         ''--min'', ''0'', ''--max'', ''1'', ''-s'', '' '']]"
    by (simp_all add: vec e)
  from t n v b 1 2 3 show ?thesis by blast
qed

section \<open>Validation of the output path\<close>

text \<open>
  The checks of \<^verbatim>\<open>_validate_inputs\<close> read off the filesystem: whether the directories
  above the output path may be searched, the node at the output path, the node at its
  parent, what the parent allows, and the node at the marker \<^verbatim>\<open>.write_test\<close> in the
  parent.
\<close>

lemma Path_write_test: "Path ''.write_test'' = \<lparr> root = [], parts = [''.write_test''] \<rparr>"
  by code_simp

lemma marker_parent:
  "str_path (path_parent (joinpath (path_parent (Path p)) ''.write_test'')) = parent_key p"
  by (simp add: joinpath_def Path_write_test path_parent_def parent_key_def str_path_def)

lemma searchable_parent:
  assumes "searchable w q"
  shows "searchable w (path_parent q)"
proof -
  have "take n (butlast (parts q)) = take n (parts q)" if "n < length (parts q) - 1" for n
    using that by (simp add: take_butlast)
  then show ?thesis
    using assms by (auto simp: searchable_def list_all_iff path_ancestors_def path_parent_def)
qed

lemma searchable_marker:
  assumes "searchable w q" and "str_path (path_parent q) \<noteq> str_path q"
  shows "searchable w (joinpath (path_parent q) ''.write_test'')"
proof -
  from assms(2) have ne: "parts q \<noteq> []"
    by (cases q) (auto simp: path_parent_def)
  have m: "joinpath (path_parent q) ''.write_test'' =
             q \<lparr> parts := butlast (parts q) @ [''.write_test''] \<rparr>"
    by (simp add: joinpath_def Path_write_test path_parent_def)
  have "take n (butlast (parts q) @ [''.write_test'']) = take n (parts q)"
    if "n < length (parts q)" for n
  proof (cases "n < length (parts q) - 1")
    case True
    then show ?thesis by (simp add: take_butlast)
  next
    case False
    with that have "n = length (parts q) - 1" by simp
    then show ?thesis by (simp add: butlast_conv_take)
  qed
  then show ?thesis
    using assms(1) ne by (auto simp: m searchable_def list_all_iff path_ancestors_def)
qed

lemma validate_inputs_cases:
  "validate_inputs count output_path w =
     (if count \<le> 0 then (Inl (QuantisValidationError ''Count must be positive''), w)
      else if is_sentinel output_path then (Inr (), w)
      else if \<not> searchable w (Path output_path) then (Inl (PyException ''PermissionError''), w)
      else if nodes w (os_key output_path) = Some Dir
      then (Inl (QuantisValidationError
                  (''Output path is a directory: '' @ output_path @ ''. Please specify a filename.'')), w)
      else if nodes w (parent_key output_path) = None
      then (Inl (QuantisValidationError
                  (''Directory does not exist: '' @ parent_key output_path)), w)
      else if nodes w (parent_key output_path) \<noteq> Some Dir
      then (Inl (QuantisValidationError
                  (''Parent path is not a directory: '' @ parent_key output_path)), w)
      else if marker_blocks (nodes w (marker_key output_path))
              \<or> parent_key output_path \<in> readonly w
      then (Inl (QuantisValidationError
                  (''No write permission for directory: '' @ parent_key output_path)), w)
      else if parent_key output_path \<in> append_only w
      then (Inl (QuantisValidationError
                  (''No write permission for directory: '' @ parent_key output_path)),
            if nodes w (marker_key output_path) = None
            then w \<lparr> nodes := (nodes w)(marker_key output_path \<mapsto> new_file w []) \<rparr> else w)
      else (Inr (), w \<lparr> nodes := (nodes w)(marker_key output_path := None) \<rparr>))"
proof -
  let ?p = "Path output_path"
  let ?m = "joinpath (path_parent ?p) ''.write_test''"
  let ?k = "os_key output_path" and ?d = "parent_key output_path" and ?mk = "marker_key output_path"
  consider (low) "count \<le> 0" | (sentinel) "0 < count" "is_sentinel output_path"
    | (hidden) "0 < count" "\<not> is_sentinel output_path" "\<not> searchable w ?p"
    | (early) "0 < count" "\<not> is_sentinel output_path" "searchable w ?p"
        "nodes w ?k = Some Dir \<or> nodes w ?d \<noteq> Some Dir"
    | (probe) "0 < count" "\<not> is_sentinel output_path" "searchable w ?p"
        "nodes w ?k \<noteq> Some Dir" "nodes w ?d = Some Dir"
    by fastforce
  then show ?thesis
  proof cases
    case low
    then show ?thesis by (simp add: validate_inputs_def)
  next
    case sentinel
    then show ?thesis by (simp add: validate_inputs_def is_sentinel_def os_key_def)
  next
    case hidden
    then show ?thesis
      by (simp add: validate_inputs_def is_sentinel_def os_key_def path_exists_def os_stat_def)
  next
    case early
    from early(3) have sp: "searchable w (path_parent ?p)" by (rule searchable_parent)
    from early show ?thesis
      by (auto simp: validate_inputs_def is_sentinel_def os_key_def path_exists_def path_is_dir_def
                     os_stat_def sp parent_key_def Let_def)
  next
    case probe
    from probe(3) have sp: "searchable w (path_parent ?p)" by (rule searchable_parent)
    from probe(4,5) have "str_path (path_parent ?p) \<noteq> str_path ?p"
      by (auto simp: os_key_def parent_key_def)
    with probe(3) have sm: "searchable w ?m" by (rule searchable_marker)
    have touch: "path_touch ?m w =
        (case nodes w ?mk of
           Some (ReadOnlyFile c owned) \<Rightarrow> if owned then Inr w else Inl ''PermissionError''
         | Some (File c) \<Rightarrow> Inr w
         | Some Dir \<Rightarrow> Inr w
         | Some Device \<Rightarrow> Inr w
         | None \<Rightarrow>
             if ?d \<in> readonly w then Inl ''PermissionError''
             else Inr (w \<lparr> nodes := (nodes w)(?mk \<mapsto> new_file w []) \<rparr>))"
      using probe(5)
      by (simp add: path_touch_def marker_parent sm Let_def marker_key_def
               split: option.splits node.splits)
    have unlink: "path_unlink ?m v =
        (case nodes v ?mk of
           None \<Rightarrow> Inl ''FileNotFoundError''
         | Some Dir \<Rightarrow> Inl ''IsADirectoryError''
         | Some n \<Rightarrow>
             if nodes v ?d \<noteq> Some Dir then Inl ''NotADirectoryError''
             else if ?d \<in> readonly v \<or> ?d \<in> append_only v then Inl ''PermissionError''
             else Inr (v \<lparr> nodes := (nodes v)(?mk := None) \<rparr>))"
      if "unsearchable v = unsearchable w" for v
    proof -
      from that sm have "searchable v ?m" by (simp add: searchable_def)
      then show ?thesis
        by (simp add: path_unlink_def marker_parent Let_def marker_key_def
                 split: option.splits node.splits)
    qed
    have head: "validate_inputs count output_path w =
        (case path_touch ?m w of
           Inl e \<Rightarrow> (Inl (QuantisValidationError (''No write permission for directory: '' @ ?d)), w)
         | Inr w1 \<Rightarrow>
             (case path_unlink ?m w1 of
                Inl e \<Rightarrow> (Inl (QuantisValidationError
                               (''No write permission for directory: '' @ ?d)), w1)
              | Inr w2 \<Rightarrow> (Inr (), w2)))"
      using probe
      by (simp add: validate_inputs_def is_sentinel_def os_key_def path_exists_def path_is_dir_def
                    os_stat_def sp parent_key_def Let_def
               split: sum.splits)
    show ?thesis
    proof (cases "nodes w ?mk")
      case None
      with probe show ?thesis
        by (auto simp: head touch unlink new_file_def)
    next
      case (Some n)
      with probe show ?thesis
        by (cases n) (auto simp: head touch unlink)
    qed
  qed
qed

lemma example_keys:
  "is_sentinel ''/dev/null/''" "is_sentinel ''./nul''"
  "\<not> is_sentinel ''/x''" "os_key ''/x'' = ''/x''"
  "\<not> is_sentinel ''/nowhere/out.bin''" "os_key ''/nowhere/out.bin'' = ''/nowhere/out.bin''"
  "parent_key ''/nowhere/out.bin'' = ''/nowhere''"
  "\<not> is_sentinel ''/x/plain/out.bin''" "os_key ''/x/plain/out.bin'' = ''/x/plain/out.bin''"
  "parent_key ''/x/plain/out.bin'' = ''/x/plain''"
  "\<not> is_sentinel ''/ro/out.bin''" "os_key ''/ro/out.bin'' = ''/ro/out.bin''"
  "parent_key ''/ro/out.bin'' = ''/ro''" "marker_key ''/ro/out.bin'' = ''/ro/.write_test''"
  "\<not> is_sentinel ''/x/out.bin''" "os_key ''/x/out.bin'' = ''/x/out.bin''"
  "parent_key ''/x/out.bin'' = ''/x''" "marker_key ''/x/out.bin'' = ''/x/.write_test''"
  "\<not> is_sentinel ''/log/out.bin''" "os_key ''/log/out.bin'' = ''/log/out.bin''"
  "parent_key ''/log/out.bin'' = ''/log''" "marker_key ''/log/out.bin'' = ''/log/.write_test''"
  "\<not> is_sentinel ''/locked/out.bin''" "os_key ''/locked/out.bin'' = ''/locked/out.bin''"
  "parent_key ''/locked/out.bin'' = ''/locked''"
  by code_simp+

lemma example_ancestors:
  "map str_path (path_ancestors (Path ''/x/out.bin'')) = [''/'', ''/x'']"
  "map str_path (path_ancestors (Path ''/ro/out.bin'')) = [''/'', ''/ro'']"
  "map str_path (path_ancestors (Path ''/log/out.bin'')) = [''/'', ''/log'']"
  "map str_path (path_ancestors (Path ''/locked/out.bin'')) = [''/'', ''/locked'']"
  by code_simp+

lemma example_world_nodes:
  "nodes example_world = example_nodes" "readonly example_world = {''/ro'', ''/locked''}"
  "append_only example_world = {''/log''}" "unsearchable example_world = {''/locked''}"
  "new_file example_world c = File c"
  by (simp_all add: example_world_def world_with_def new_file_def creates_writable_def)

lemma example_searchable:
  "searchable example_world (Path ''/x/out.bin'')"
  "searchable example_world (Path ''/ro/out.bin'')"
  "searchable example_world (Path ''/log/out.bin'')"
  "\<not> searchable example_world (Path ''/locked/out.bin'')"
  by (simp_all add: searchable_keys example_ancestors example_world_nodes)

text \<open>
  C5. The order of the path checks is the one the claim gives, and a read-only parent
  such as \<^verbatim>\<open>/ro\<close> ends in the validation error "No write permission for directory".
  The claim fails for a parent that the process may neither write nor search, such as
  \<^verbatim>\<open>/locked\<close>: \<^verbatim>\<open>path.exists()\<close> stands outside the \<^verbatim>\<open>try\<close> block that turns the errors
  of the probe into validation errors, so the three operations leave with the
  \<^verbatim>\<open>PermissionError\<close> of that query, in both modes, before any check of the parent.
\<close>

theorem unsearchable_parent_raises_permission_error:
  "nodes example_world ''/locked'' = Some Dir
   \<and> ''/locked'' \<in> readonly example_world
   \<and> parent_key ''/locked/out.bin'' = ''/locked''
   \<and> generate_binary default_config 100 ''/locked/out.bin'' example_world =
       (Inl (PyException ''PermissionError''), example_world)
   \<and> generate_integers int_ops test_config 100 ''/locked/out.bin'' None None None example_world =
       (Inl (PyException ''PermissionError''), example_world)
   \<and> generate_floats int_ops test_config 100 ''/locked/out.bin'' None None None example_world =
       (Inl (PyException ''PermissionError''), example_world)
   \<and> generate_binary default_config 100 ''/ro/out.bin'' example_world =
       (Inl (QuantisValidationError ''No write permission for directory: /ro''), example_world)"
  by (simp add: generate_binary_def generate_integers_def generate_floats_def
                validate_inputs_cases example_keys example_searchable example_world_nodes
                example_nodes_def)

section \<open>The marker of the write probe\<close>

text \<open>
  C7, as the specification states it, promises that the marker is removed even when the
  probe raises, so that none is ever left behind. The source has no cleanup. The
  directory \<^verbatim>\<open>/log\<close> lets the process create entries but not remove them, and holds no
  \<^verbatim>\<open>.write_test\<close>: \<^verbatim>\<open>touch\<close> creates the marker, \<^verbatim>\<open>unlink\<close> raises, the call fails with
  the validation error, and the empty marker the probe created is still there.
\<close>

theorem probe_marker_left_behind:
  "marker_key ''/log/out.bin'' = ''/log/.write_test''
   \<and> nodes example_world ''/log/.write_test'' = None
   \<and> fst (validate_inputs 5 ''/log/out.bin'' example_world) =
       Inl (QuantisValidationError ''No write permission for directory: /log'')
   \<and> nodes (snd (validate_inputs 5 ''/log/out.bin'' example_world)) ''/log/.write_test'' =
       Some (File [])
   \<and> fst (generate_binary test_config 5 ''/log/out.bin'' example_world) =
       Inl (QuantisValidationError ''No write permission for directory: /log'')
   \<and> nodes (snd (generate_binary test_config 5 ''/log/out.bin'' example_world)) ''/log/.write_test'' =
       Some (File [])"
  by (simp add: generate_binary_def validate_inputs_cases example_keys example_searchable
                example_world_nodes example_nodes_def)

text \<open>
  C7, amended. For a positive count and a path that is not a null-device name, the probe
  touches and then unlinks \<^verbatim>\<open>.write_test\<close> in the parent directory during validation,
  before any real work. Validation succeeds exactly when the directories above the path
  may be searched, the path is not a directory, the parent is a directory that lets the
  process create and remove entries, and the marker name is taken neither by a directory
  nor by a file of another owner that the process may not write; then no node is left at
  the marker path, nothing else has changed, and execution starts from that world. When
  validation fails, execution is not reached, and the world is exactly as it was found,
  with one exception: when the marker did not exist and the parent lets the process
  create entries but not remove them, the call fails with "No write permission for
  directory" and the empty marker that the probe created stays behind.
\<close>

theorem probe_marker_lifetime:
  fixes count :: int and output_path :: string and w :: world and cfg :: config
  defines "v \<equiv> validate_inputs count output_path w"
  defines "mk \<equiv> marker_key output_path"
  defines "d \<equiv> parent_key output_path"
  defines "probed \<equiv> searchable w (Path output_path) \<and> nodes w (os_key output_path) \<noteq> Some Dir
                     \<and> nodes w d = Some Dir"
  assumes "0 < count" and "\<not> is_sentinel output_path"
  shows "(fst v = Inr () \<longleftrightarrow>
            probed \<and> \<not> marker_blocks (nodes w mk) \<and> d \<notin> readonly w \<and> d \<notin> append_only w)
       \<and> (fst v = Inr () \<longrightarrow>
            snd v = w \<lparr> nodes := (nodes w)(mk := None) \<rparr>
            \<and> generate_binary cfg count output_path w =
                execute_command cfg [''-b'', output_path, ''-n'', str_int count]
                  (w \<lparr> nodes := (nodes w)(mk := None) \<rparr>))
       \<and> (fst v \<noteq> Inr () \<longrightarrow> generate_binary cfg count output_path w = v)
       \<and> (probed \<and> nodes w mk = None \<and> d \<notin> readonly w \<and> d \<in> append_only w \<longrightarrow>
            v = (Inl (QuantisValidationError (''No write permission for directory: '' @ d)),
                 w \<lparr> nodes := (nodes w)(mk \<mapsto> new_file w []) \<rparr>))
       \<and> (fst v \<noteq> Inr ()
            \<and> \<not> (probed \<and> nodes w mk = None \<and> d \<notin> readonly w \<and> d \<in> append_only w) \<longrightarrow>
            snd v = w)"
  using assms(5,6) unfolding v_def mk_def d_def probed_def
  by (auto simp: validate_inputs_cases generate_binary_def)

theorem probe_marker_lifetime_witness:
  "(0::int) < 5 \<and> \<not> is_sentinel ''/x/out.bin'' \<and> \<not> is_sentinel ''/log/out.bin''
   \<and> \<not> is_sentinel ''/ro/out.bin''
   \<and> fst (validate_inputs 5 ''/x/out.bin'' example_world) = Inr ()
   \<and> nodes (snd (validate_inputs 5 ''/x/out.bin'' example_world)) ''/x/.write_test'' = None
   \<and> nodes (snd (validate_inputs 5 ''/log/out.bin'' example_world)) ''/log/.write_test'' =
       Some (File [])
   \<and> fst (validate_inputs 5 ''/ro/out.bin'' example_world) \<noteq> Inr ()
   \<and> snd (validate_inputs 5 ''/ro/out.bin'' example_world) = example_world"
proof -
  have pos: "(0::int) < 5" by simp
  have s1: "\<not> is_sentinel ''/x/out.bin''" and s2: "\<not> is_sentinel ''/log/out.bin''"
    and s3: "\<not> is_sentinel ''/ro/out.bin''"
    by (rule example_keys)+
  note facts = example_keys example_searchable example_world_nodes example_nodes_def
  have v1: "fst (validate_inputs 5 ''/x/out.bin'' example_world) = Inr ()"
    and v3: "fst (validate_inputs 5 ''/ro/out.bin'' example_world) \<noteq> Inr ()"
    by (simp_all add: validate_inputs_cases facts)
  from probe_marker_lifetime [OF pos s1, where w = example_world, THEN conjunct2, THEN conjunct1] v1
  have "snd (validate_inputs 5 ''/x/out.bin'' example_world) =
          example_world \<lparr> nodes := (nodes example_world)(marker_key ''/x/out.bin'' := None) \<rparr>"
    by blast
  then have 1: "nodes (snd (validate_inputs 5 ''/x/out.bin'' example_world)) ''/x/.write_test'' = None"
    by (simp add: example_keys)
  from probe_marker_lifetime [OF pos s2, where w = example_world,
         THEN conjunct2, THEN conjunct2, THEN conjunct2, THEN conjunct1]
  have "validate_inputs 5 ''/log/out.bin'' example_world =
          (Inl (QuantisValidationError (''No write permission for directory: ''
                  @ parent_key ''/log/out.bin'')),
           example_world \<lparr> nodes := (nodes example_world)
                                     (marker_key ''/log/out.bin'' \<mapsto> new_file example_world []) \<rparr>)"
    by (simp add: facts)
  then have 2: "nodes (snd (validate_inputs 5 ''/log/out.bin'' example_world)) ''/log/.write_test'' =
       Some (File [])"
    by (simp add: example_keys example_world_nodes)
  from probe_marker_lifetime [OF pos s3, where w = example_world,
         THEN conjunct2, THEN conjunct2, THEN conjunct2, THEN conjunct2] v3
  have 3: "snd (validate_inputs 5 ''/ro/out.bin'' example_world) = example_world"
    by (simp add: facts)
  from pos s1 s2 s3 v1 1 2 v3 3 show ?thesis by blast
qed

section \<open>Test mode\<close>







text \<open>
  C10. Validation recognises as a null-device name every path whose normalised form is
  \<^verbatim>\<open>/dev/null\<close> or \<^verbatim>\<open>nul\<close> (this is \<open>is_sentinel\<close>, and \<open>validate_inputs_cases\<close>
  shows that validation decides by it). The test-mode loop compares the argument as it
  was given with the two literal names instead. For \<^verbatim>\<open>./nul\<close> validation is skipped as for
  a null device, and then test mode creates the placeholder file \<^verbatim>\<open>nul\<close> in the working
  directory, where no such file was; for the literal \<^verbatim>\<open>nul\<close> nothing is written.
\<close>

theorem sentinel_variant_written_in_test_mode:
  "is_sentinel ''./nul''
   \<and> validate_inputs 1 ''./nul'' example_world = (Inr (), example_world)
   \<and> nodes example_world ''nul'' = None
   \<and> fst (generate_binary test_config 1 ''./nul'' example_world) = Inr ()
   \<and> nodes (snd (generate_binary test_config 1 ''./nul'' example_world)) ''nul'' =
       Some (File ''test_data_1003'')
   \<and> fst (generate_binary test_config 1 ''nul'' example_world) = Inr ()
   \<and> nodes (snd (generate_binary test_config 1 ''nul'' example_world)) ''nul'' = None"
proof -
  have s: "is_sentinel ''./nul''" by (rule example_keys)
  have v: "validate_inputs 1 ''./nul'' example_world = (Inr (), example_world)"
    using s by (simp add: validate_inputs_cases)
  have rest: "nodes example_world ''nul'' = None"
    "fst (generate_binary test_config 1 ''./nul'' example_world) = Inr ()"
    "nodes (snd (generate_binary test_config 1 ''./nul'' example_world)) ''nul'' =
       Some (File ''test_data_1003'')"
    "fst (generate_binary test_config 1 ''nul'' example_world) = Inr ()"
    "nodes (snd (generate_binary test_config 1 ''nul'' example_world)) ''nul'' = None"
    by code_simp+
  from s v rest show ?thesis by blast
qed

section \<open>Two calls in test mode\<close>



















end
